theory Spec2Isabelle
  imports
    Complex_Main
    "HOL-Library.AList"
    "HOL-Library.Char_ord"
    "HOL-Library.List_Lexorder"
begin

section \<open>Values exchanged with the outside\<close>

text \<open>
  The request body of \<^verbatim>\<open>/submit-job\<close> and a job's payload are whatever
  \<^verbatim>\<open>request.get_json()\<close> and \<^verbatim>\<open>json.loads\<close> produce: a Python value built from
  \<^verbatim>\<open>None\<close>, booleans, numbers, strings, lists and dicts. A number is kept as a
  real (only whether it is zero matters to the program), a dict as an association
  list that is looked up from the front.
\<close>

datatype json =
    JNull
  | JBool bool
  | JNum real
  | JStr string
  | JArr "json list"
  | JObj "(string \<times> json) list"

text \<open>
  The exceptions that the modelled statements can raise. \<^verbatim>\<open>str(e)\<close> is taken only
  in \<^verbatim>\<open>process_job\<close>, of a \<^verbatim>\<open>KeyError\<close> (the missing key in quotes) or an
  \<^verbatim>\<open>IndexError\<close>; a \<^verbatim>\<open>TypeError\<close> arises only in the request handler, which
  answers it without looking at its text.
\<close>

datatype py_exn = KeyError string | IndexError | TypeError

fun str_exn :: "py_exn \<Rightarrow> string" where
  "str_exn (KeyError k) = [CHR 0x27] @ k @ [CHR 0x27]"
| "str_exn IndexError = ''list index out of range''"
| "str_exn TypeError = ''TypeError''"

text \<open>Python's truth value of a decoded JSON value (\<^verbatim>\<open>not data\<close>).\<close>

fun truthy :: "json \<Rightarrow> bool" where
  "truthy JNull = False"
| "truthy (JBool b) = b"
| "truthy (JNum x) = (x \<noteq> 0)"
| "truthy (JStr s) = (s \<noteq> [])"
| "truthy (JArr xs) = (xs \<noteq> [])"
| "truthy (JObj kvs) = (kvs \<noteq> [])"

text \<open>\<^verbatim>\<open>s in t\<close> on two strings is the substring test.\<close>

fun starts_with :: "string \<Rightarrow> string \<Rightarrow> bool" where
  "starts_with [] t = True"
| "starts_with (c # s) [] = False"
| "starts_with (c # s) (d # t) = (c = d \<and> starts_with s t)"

fun substring :: "string \<Rightarrow> string \<Rightarrow> bool" where
  "substring s [] = (s = [])"
| "substring s (d # t) = (starts_with s (d # t) \<or> substring s t)"

text \<open>
  \<^verbatim>\<open>field in data\<close>: key membership on a dict, element membership on a list,
  substring on a string, and a \<^verbatim>\<open>TypeError\<close> on \<^verbatim>\<open>None\<close>, a boolean or a number.
\<close>

fun py_contains :: "string \<Rightarrow> json \<Rightarrow> py_exn + bool" where
  "py_contains f (JObj kvs) = Inr (f \<in> set (map fst kvs))"
| "py_contains f (JArr xs) = Inr (JStr f \<in> set xs)"
| "py_contains f (JStr s) = Inr (substring f s)"
| "py_contains f JNull = Inl TypeError"
| "py_contains f (JBool b) = Inl TypeError"
| "py_contains f (JNum x) = Inl TypeError"

text \<open>
  \<^verbatim>\<open>data[key]\<close> with a string key: the value on a dict (\<^verbatim>\<open>KeyError\<close> when absent),
  a \<^verbatim>\<open>TypeError\<close> on everything else.
\<close>

fun py_getitem :: "json \<Rightarrow> string \<Rightarrow> py_exn + json" where
  "py_getitem (JObj kvs) k =
     (case map_of kvs k of None \<Rightarrow> Inl (KeyError k) | Some v \<Rightarrow> Inr v)"
| "py_getitem JNull k = Inl TypeError"
| "py_getitem (JBool b) k = Inl TypeError"
| "py_getitem (JNum x) k = Inl TypeError"
| "py_getitem (JStr s) k = Inl TypeError"
| "py_getitem (JArr xs) k = Inl TypeError"

text \<open>\<^verbatim>\<open>xs[i]\<close> on a list: a negative index counts from the end, out of range raises.\<close>

definition py_index :: "'a list \<Rightarrow> int \<Rightarrow> py_exn + 'a" where
  "py_index xs i =
     (if 0 \<le> i \<and> i < int (length xs) then Inr (xs ! nat i)
      else if i < 0 \<and> - int (length xs) \<le> i then Inr (xs ! nat (int (length xs) + i))
      else Inl IndexError)"

section \<open>config.py\<close>

definition MAX_RETRIES :: int where
  "MAX_RETRIES = 3"

definition RETRY_DELAYS :: "int list" where
  "RETRY_DELAYS = [1, 4, 9]"

definition PRIORITY_SCORES :: "(string \<times> int) list" where
  "PRIORITY_SCORES = [(''high'', 1), (''low'', 2)]"

text \<open>
  The delay looked up after the \<open>k\<close>-th failure, \<^verbatim>\<open>Config.RETRY_DELAYS[k - 1]\<close>
  with \<open>k\<close> the incremented \<^verbatim>\<open>retry_count\<close>.
\<close>

definition backoff :: "int \<Rightarrow> py_exn + int" where
  "backoff k = py_index RETRY_DELAYS (k - 1)"

text \<open>\<^verbatim>\<open>Config.PRIORITY_SCORES[p]\<close>.\<close>

definition priority_score :: "string \<Rightarrow> py_exn + int" where
  "priority_score p =
     (case map_of PRIORITY_SCORES p of None \<Rightarrow> Inl (KeyError p) | Some s \<Rightarrow> Inr s)"

section \<open>models.py\<close>

text \<open>
  Timestamps are the strings of \<^verbatim>\<open>datetime.now().isoformat()\<close>; the clock reading
  is an argument of every method that takes one.
\<close>

record job =
  job_id :: string
  job_type :: string
  priority :: string
  payload :: json
  status :: string
  retry_count :: int
  created_at :: string
  picked_at :: "string option"
  completed_at :: "string option"
  error_message :: "string option"

text \<open>\<^verbatim>\<open>Job.__init__\<close> with the identifier that \<^verbatim>\<open>uuid.uuid4()\<close> returned.\<close>

definition new_job :: "string \<Rightarrow> string \<Rightarrow> json \<Rightarrow> string \<Rightarrow> string \<Rightarrow> job" where
  "new_job jt pr pl jid now =
     \<lparr> job_id = jid, job_type = jt, priority = pr, payload = pl,
       status = ''pending'', retry_count = 0, created_at = now,
       picked_at = None, completed_at = None, error_message = None \<rparr>"

definition mark_picked :: "string \<Rightarrow> job \<Rightarrow> job" where
  "mark_picked now j = j\<lparr> status := ''processing'', picked_at := Some now \<rparr>"

definition mark_completed :: "string \<Rightarrow> job \<Rightarrow> job" where
  "mark_completed now j = j\<lparr> status := ''completed'', completed_at := Some now \<rparr>"

definition mark_failed :: "string \<Rightarrow> string \<Rightarrow> job \<Rightarrow> job" where
  "mark_failed msg now j =
     j\<lparr> status := ''failed'', completed_at := Some now,
        error_message := Some msg, retry_count := retry_count j + 1 \<rparr>"

definition should_retry :: "job \<Rightarrow> int \<Rightarrow> bool" where
  "should_retry j max_retries = (retry_count j < max_retries)"

section \<open>The two stores and what is done to them\<close>

text \<open>
  The effects of the program, in the order in which they happen: a write of a row
  to the \<^verbatim>\<open>jobs\<close> table (with whether sqlite accepted it), \<^verbatim>\<open>time.sleep\<close>,
  \<^verbatim>\<open>zadd\<close> and \<^verbatim>\<open>zpopmin\<close> on the sorted set \<^verbatim>\<open>job_queue\<close>, and a line appended to
  \<^verbatim>\<open>failed_jobs.log\<close>. Console output and the time the mock handlers spend are
  not recorded.
\<close>

datatype event =
    DbWrite job bool
  | Sleep int
  | ZAdd string int
  | ZPopMin string
  | FileAppend string

text \<open>The durations slept, and the rows written, along a run of effects.\<close>

fun sleeps :: "event list \<Rightarrow> int list" where
  "sleeps [] = []"
| "sleeps (Sleep d # es) = d # sleeps es"
| "sleeps (x # es) = sleeps es"

fun writes :: "event list \<Rightarrow> job list" where
  "writes [] = []"
| "writes (DbWrite j ok # es) = j # writes es"
| "writes (x # es) = writes es"

record world =
  db :: "string \<rightharpoonup> job"
  queue :: "(string \<times> int) list"
  failed_log :: "string list"
  trace :: "event list"

definition init_world :: world where
  "init_world = \<lparr> db = Map.empty, queue = [], failed_log = [], trace = [] \<rparr>"

definition emit :: "event \<Rightarrow> world \<Rightarrow> world" where
  "emit e w = w\<lparr> trace := trace w @ [e] \<rparr>"

text \<open>
  What the surroundings decide during one request or one iteration of the worker:
  whether sqlite accepts writes, whether the mock handler draws a simulated fault
  (\<^verbatim>\<open>random.random() < p\<close>), and the clock. Redis, the file system and the
  reads of the table are taken to answer every call.
\<close>

record env =
  db_ok :: bool
  exec_ok :: bool
  now :: string

subsection \<open>The sorted set of Redis\<close>

text \<open>
  A sorted set holds each member once, with one score. \<^verbatim>\<open>zadd\<close> of a member that
  is there replaces its score; \<^verbatim>\<open>zpopmin\<close> removes the member of least score, the
  lexicographically least one among equals.
\<close>

definition entry_le :: "string \<times> int \<Rightarrow> string \<times> int \<Rightarrow> bool" where
  "entry_le e m = (snd e < snd m \<or> (snd e = snd m \<and> fst e \<le> fst m))"

fun zmin :: "(string \<times> int) list \<Rightarrow> (string \<times> int) option" where
  "zmin [] = None"
| "zmin (e # es) =
     (case zmin es of
        None \<Rightarrow> Some e
      | Some m \<Rightarrow> if entry_le e m then Some e else Some m)"

definition zpopmin :: "(string \<times> int) list \<Rightarrow> ((string \<times> int) \<times> (string \<times> int) list) option" where
  "zpopmin q =
     (case zmin q of
        None \<Rightarrow> None
      | Some (k, s) \<Rightarrow> Some ((k, s), AList.delete k q))"

definition zadd :: "string \<Rightarrow> int \<Rightarrow> (string \<times> int) list \<Rightarrow> (string \<times> int) list" where
  "zadd k s q = AList.update k s q"

section \<open>database.py\<close>

text \<open>
  \<^verbatim>\<open>save_job\<close> is \<^verbatim>\<open>INSERT OR REPLACE\<close> under the primary key \<^verbatim>\<open>job_id\<close>; every
  exception of sqlite is caught there and turned into the result \<^verbatim>\<open>False\<close>.
\<close>

definition save_job :: "bool \<Rightarrow> job \<Rightarrow> world \<Rightarrow> bool \<times> world" where
  "save_job ok j w =
     (if ok then (True, emit (DbWrite j True) (w\<lparr> db := (db w)(job_id j \<mapsto> j) \<rparr>))
      else (False, emit (DbWrite j False) w))"

definition get_job :: "string \<Rightarrow> world \<Rightarrow> job option" where
  "get_job jid w = db w jid"

definition update_job_status :: "bool \<Rightarrow> job \<Rightarrow> world \<Rightarrow> bool \<times> world" where
  "update_job_status ok j w = save_job ok j w"

section \<open>worker.py\<close>

definition get_next_job :: "env \<Rightarrow> world \<Rightarrow> job option \<times> world" where
  "get_next_job e w =
     (case zpopmin (queue w) of
        None \<Rightarrow> (None, w)
      | Some ((jid, score), q') \<Rightarrow>
          let w1 = emit (ZPopMin jid) (w\<lparr> queue := q' \<rparr>) in
          (case get_job jid w1 of
             None \<Rightarrow> (None, w1)
           | Some j \<Rightarrow>
               if status j = ''pending'' then
                 let j' = mark_picked (now e) j;
                     w2 = snd (update_job_status (db_ok e) j' w1)
                 in (Some j', w2)
               else (None, w1)))"

text \<open>
  The three mock handlers wrap their whole body in \<^verbatim>\<open>try\<close>/\<^verbatim>\<open>except\<close>: they
  return \<^verbatim>\<open>False\<close> when \<^verbatim>\<open>payload.get\<close> does not exist (the payload is not a dict)
  and when the simulated fault is drawn, \<^verbatim>\<open>True\<close> otherwise.
\<close>

fun is_dict :: "json \<Rightarrow> bool" where
  "is_dict (JObj kvs) = True"
| "is_dict v = False"

definition send_email :: "env \<Rightarrow> json \<Rightarrow> bool" where
  "send_email e pl = (is_dict pl \<and> exec_ok e)"

definition process_data :: "env \<Rightarrow> json \<Rightarrow> bool" where
  "process_data e pl = (is_dict pl \<and> exec_ok e)"

definition generate_report :: "env \<Rightarrow> json \<Rightarrow> bool" where
  "generate_report e pl = (is_dict pl \<and> exec_ok e)"

definition execute_job :: "env \<Rightarrow> job \<Rightarrow> bool" where
  "execute_job e j =
     (if job_type j = ''send_email'' then send_email e (payload j)
      else if job_type j = ''process_data'' then process_data e (payload j)
      else if job_type j = ''generate_report'' then generate_report e (payload j)
      else False)"

text \<open>
  \<^verbatim>\<open>handle_job_failure\<close> returns the exception that left it (if any), the job
  object as it mutated it, and the stores.
\<close>

definition handle_job_failure ::
    "env \<Rightarrow> job \<Rightarrow> string \<Rightarrow> world \<Rightarrow> py_exn option \<times> job \<times> world" where
  "handle_job_failure e j0 error_msg w0 =
     (let j = mark_failed error_msg (now e) j0;
          w = (if \<not> should_retry j MAX_RETRIES
               then emit (FileAppend (job_id j @ '': '' @ error_msg @ [CHR 0x0A]))
                      (w0\<lparr> failed_log := failed_log w0 @
                              [job_id j @ '': '' @ error_msg @ [CHR 0x0A]] \<rparr>)
               else w0)
      in if should_retry j MAX_RETRIES then
           (case backoff (retry_count j) of
              Inl x \<Rightarrow> (Some x, j, w)
            | Inr retry_delay \<Rightarrow>
                let j' = j\<lparr> status := ''pending'' \<rparr>;
                    w1 = snd (update_job_status (db_ok e) j' w);
                    w2 = emit (Sleep retry_delay) w1
                in (case priority_score (priority j') of
                      Inl x \<Rightarrow> (Some x, j', w2)
                    | Inr sc \<Rightarrow>
                        (None, j',
                         emit (ZAdd (job_id j') sc)
                           (w2\<lparr> queue := zadd (job_id j') sc (queue w2) \<rparr>))))
         else (None, j, snd (update_job_status (db_ok e) j w)))"

text \<open>
  In \<^verbatim>\<open>process_job\<close> the first call of \<^verbatim>\<open>handle_job_failure\<close> stands inside the
  \<^verbatim>\<open>try\<close> block, so an exception leaving it is handled by a second call, with
  \<^verbatim>\<open>str(e)\<close> as the message; an exception leaving the second call leaves
  \<^verbatim>\<open>process_job\<close>.
\<close>

definition process_job :: "env \<Rightarrow> job \<Rightarrow> world \<Rightarrow> py_exn option \<times> job \<times> world" where
  "process_job e j w =
     (if execute_job e j then
        let j' = mark_completed (now e) j
        in (None, j', snd (update_job_status (db_ok e) j' w))
      else
        (case handle_job_failure e j ''Job execution failed'' w of
           (None, j', w') \<Rightarrow> (None, j', w')
         | (Some x, j', w') \<Rightarrow> handle_job_failure e j' (str_exn x) w'))"

text \<open>
  One pass through the body of the \<^verbatim>\<open>while\<close> loop of \<^verbatim>\<open>start\<close>. An exception
  other than \<^verbatim>\<open>KeyboardInterrupt\<close> ends the loop, so \<^verbatim>\<open>start\<close> runs the passes
  for which it is given surroundings until one of them raises.
\<close>

definition worker_iteration :: "env \<Rightarrow> world \<Rightarrow> py_exn option \<times> world" where
  "worker_iteration e w =
     (case get_next_job e w of
        (None, w1) \<Rightarrow> (None, emit (Sleep 2) w1)
      | (Some j, w1) \<Rightarrow>
          (case process_job e j w1 of (x, j', w2) \<Rightarrow> (x, w2)))"

fun start :: "env list \<Rightarrow> world \<Rightarrow> py_exn option \<times> world" where
  "start [] w = (None, w)"
| "start (e # es) w =
     (case worker_iteration e w of
        (None, w') \<Rightarrow> start es w'
      | (Some x, w') \<Rightarrow> (Some x, w'))"

section \<open>app.py\<close>

definition required_fields :: "string list" where
  "required_fields = [''job_type'', ''priority'', ''payload'']"

definition valid_job_types :: "string list" where
  "valid_job_types = [''send_email'', ''process_data'', ''generate_report'']"

text \<open>The loop over \<^verbatim>\<open>required_fields\<close>: the first field that is not in the body.\<close>

fun missing_field :: "json \<Rightarrow> string list \<Rightarrow> py_exn + string option" where
  "missing_field data [] = Inr None"
| "missing_field data (f # fs) =
     (case py_contains f data of
        Inl x \<Rightarrow> Inl x
      | Inr b \<Rightarrow> if \<not> b then Inr (Some f) else missing_field data fs)"

definition error_body :: "string \<Rightarrow> json" where
  "error_body msg = JObj [(''error'', JStr msg)]"

definition internal_error :: "nat \<times> json" where
  "internal_error = (500, error_body ''Internal server error'')"

fun str_of :: "json \<Rightarrow> string" where
  "str_of (JStr s) = s"
| "str_of v = []"

text \<open>
  The handler of \<^verbatim>\<open>POST /submit-job\<close> on the decoded body, with the identifier
  that \<^verbatim>\<open>uuid.uuid4()\<close> would give a new job. Every exception inside the handler
  is answered with status 500. The result is the status code, the JSON answer and
  the stores.
\<close>

definition submit_job :: "env \<Rightarrow> string \<Rightarrow> json \<Rightarrow> world \<Rightarrow> (nat \<times> json) \<times> world" where
  "submit_job e uuid data w =
     (if \<not> truthy data then ((400, error_body ''No JSON data provided''), w)
      else
        (case missing_field data required_fields of
           Inl x \<Rightarrow> (internal_error, w)
         | Inr (Some f) \<Rightarrow> ((400, error_body (''Missing field: '' @ f)), w)
         | Inr None \<Rightarrow>
            (case py_getitem data ''priority'' of
               Inl x \<Rightarrow> (internal_error, w)
             | Inr pr \<Rightarrow>
                if pr \<notin> set [JStr ''high'', JStr ''low'']
                then ((400, error_body ''Priority must be \"high\" or \"low\"''), w)
                else
                  (case py_getitem data ''job_type'' of
                     Inl x \<Rightarrow> (internal_error, w)
                   | Inr jt \<Rightarrow>
                      if jt \<notin> set (map JStr valid_job_types)
                      then ((400, error_body
                               (''Invalid job_type. Valid types: '' @
                                ''['' @ [CHR 0x27] @ ''send_email'' @ [CHR 0x27] @ '', '' @
                                [CHR 0x27] @ ''process_data'' @ [CHR 0x27] @ '', '' @
                                [CHR 0x27] @ ''generate_report'' @ [CHR 0x27] @ '']'')), w)
                      else
                        (case py_getitem data ''payload'' of
                           Inl x \<Rightarrow> (internal_error, w)
                         | Inr pl \<Rightarrow>
                            let j = new_job (str_of jt) (str_of pr) pl uuid (now e);
                                (saved, w1) = save_job (db_ok e) j w
                            in if \<not> saved
                               then ((500, error_body ''Failed to save job to database''), w1)
                               else
                                 (case priority_score (priority j) of
                                    Inl x \<Rightarrow> (internal_error, w1)
                                  | Inr sc \<Rightarrow>
                                     ((201, JObj [(''message'', JStr ''Job submitted successfully''),
                                                  (''job_id'', JStr (job_id j)),
                                                  (''status'', JStr (status j)),
                                                  (''priority'', JStr (priority j)),
                                                  (''job_type'', JStr (job_type j))]),
                                      emit (ZAdd (job_id j) sc)
                                        (w1\<lparr> queue := zadd (job_id j) sc (queue w1) \<rparr>))))))))"

section \<open>Well-formed requests, agreeing stores\<close>

text \<open>
  What a well-formed submission is: the body has the three fields, the priority is
  \<^verbatim>\<open>high\<close> or \<^verbatim>\<open>low\<close>, and the job type is one of the three registered kinds. Only
  a dict has fields.
\<close>

definition field :: "json \<Rightarrow> string \<Rightarrow> json option" where
  "field data k = (case data of JObj kvs \<Rightarrow> map_of kvs k | _ \<Rightarrow> None)"









section \<open>Sample data\<close>

definition env_fail :: env where
  "env_fail = \<lparr> db_ok = True, exec_ok = False, now = ''2024-12-01T10:00:00'' \<rparr>"

definition env_good :: env where
  "env_good = \<lparr> db_ok = True, exec_ok = True, now = ''2024-12-01T10:00:00'' \<rparr>"

definition env_db_down :: env where
  "env_db_down = \<lparr> db_ok = False, exec_ok = True, now = ''2024-12-01T10:00:00'' \<rparr>"

definition job_a :: job where
  "job_a = new_job ''send_email'' ''high'' (JObj [(''to'', JStr ''user1@example.com'')])
             ''a'' ''2024-12-01T09:00:00''"

definition job_b :: job where
  "job_b = new_job ''send_email'' ''low'' (JObj [(''to'', JStr ''user2@example.com'')])
             ''b'' ''2024-12-01T09:00:01''"

text \<open>A finished job whose identifier is still in the sorted set, before a pending one.\<close>

definition stale_world :: world where
  "stale_world =
     \<lparr> db = [''a'' \<mapsto> job_a\<lparr> status := ''completed'' \<rparr>, ''b'' \<mapsto> job_b],
       queue = [(''a'', 1), (''b'', 2)], failed_log = [], trace = [] \<rparr>"

text \<open>Two well-formed request bodies, and the stores after both were submitted, the low one first.\<close>

definition body_high :: json where
  "body_high = JObj [(''job_type'', JStr ''send_email''), (''priority'', JStr ''high''),
                     (''payload'', JObj [(''to'', JStr ''user1@example.com'')])]"

definition body_low :: json where
  "body_low = JObj [(''job_type'', JStr ''send_email''), (''priority'', JStr ''low''),
                    (''payload'', JObj [(''to'', JStr ''user2@example.com'')])]"

definition low_then_high :: world where
  "low_then_high =
     snd (submit_job env_good ''a'' body_high (snd (submit_job env_good ''b'' body_low init_world)))"





definition one_job_world :: world where
  "one_job_world = snd (submit_job env_good ''a'' body_high init_world)"

section \<open>Facts about the sorted set\<close>

lemma zmin_None: "zmin q = None \<longleftrightarrow> q = []"
  by (induction q) (auto split: option.splits)

lemma zmin_mem: "zmin q = Some m \<Longrightarrow> m \<in> set q"
  by (induction q arbitrary: m) (auto split: option.splits if_splits)

lemma zmin_least: "zmin q = Some m \<Longrightarrow> x \<in> set q \<Longrightarrow> snd m \<le> snd x"
  by (induction q arbitrary: m)
    (auto simp: entry_le_def zmin_None split: option.splits if_splits)


lemma zpopmin_Some:
  "zpopmin q = Some ((k, s), q') \<Longrightarrow>
     (k, s) \<in> set q \<and> q' = AList.delete k q \<and> (\<forall>x\<in>set q. s \<le> snd x)"
  by (auto simp: zpopmin_def split: option.splits dest: zmin_mem zmin_least)



section \<open>The two branches of failure handling, and dispatch\<close>

lemma backoff_in_range:
  "1 \<le> k \<Longrightarrow> k \<le> 3 \<Longrightarrow> backoff k = Inr (RETRY_DELAYS ! nat (k - 1))"
  by (simp add: backoff_def py_index_def RETRY_DELAYS_def Let_def)

lemma handle_job_failure_retry:
  assumes "retry_count j0 + 1 < MAX_RETRIES"
    and "backoff (retry_count j0 + 1) = Inr d"
    and "priority_score (priority j0) = Inr sc"
  shows "handle_job_failure e j0 msg w =
     (None, (mark_failed msg (now e) j0)\<lparr> status := ''pending'' \<rparr>,
      w\<lparr> db := (if db_ok e
                 then (db w)(job_id j0 \<mapsto> (mark_failed msg (now e) j0)\<lparr> status := ''pending'' \<rparr>)
                 else db w),
         queue := zadd (job_id j0) sc (queue w),
         trace := trace w @
           [DbWrite ((mark_failed msg (now e) j0)\<lparr> status := ''pending'' \<rparr>) (db_ok e),
            Sleep d,
            ZAdd (job_id j0) sc] \<rparr>)"
  using assms
  by (simp add: handle_job_failure_def should_retry_def mark_failed_def
      update_job_status_def save_job_def emit_def Let_def)

lemma handle_job_failure_give_up:
  assumes "\<not> retry_count j0 + 1 < MAX_RETRIES"
  shows "handle_job_failure e j0 msg w =
     (None, mark_failed msg (now e) j0,
      w\<lparr> db := (if db_ok e then (db w)(job_id j0 \<mapsto> mark_failed msg (now e) j0) else db w),
         failed_log := failed_log w @ [job_id j0 @ '': '' @ msg @ [CHR 0x0A]],
         trace := trace w @
           [FileAppend (job_id j0 @ '': '' @ msg @ [CHR 0x0A]),
            DbWrite (mark_failed msg (now e) j0) (db_ok e)] \<rparr>)"
  using assms
  by (simp add: handle_job_failure_def should_retry_def mark_failed_def MAX_RETRIES_def
      update_job_status_def save_job_def emit_def Let_def)

lemma get_next_job_empty: "queue w = [] \<Longrightarrow> get_next_job e w = (None, w)"
  by (simp add: get_next_job_def zpopmin_def)

lemma get_next_job_pending:
  assumes "zpopmin (queue w) = Some ((jid, sc), q')" and "db w jid = Some j"
    and "status j = ''pending''"
  shows "get_next_job e w =
     (Some (mark_picked (now e) j),
      w\<lparr> db := (if db_ok e then (db w)(job_id j \<mapsto> mark_picked (now e) j) else db w),
         queue := q',
         trace := trace w @ [ZPopMin jid, DbWrite (mark_picked (now e) j) (db_ok e)] \<rparr>)"
  using assms
  by (simp add: get_next_job_def get_job_def update_job_status_def save_job_def emit_def
      mark_picked_def Let_def)

lemma get_next_job_not_pending:
  assumes "zpopmin (queue w) = Some ((jid, sc), q')"
    and "db w jid = None \<or> (\<exists>j. db w jid = Some j \<and> status j \<noteq> ''pending'')"
  shows "get_next_job e w = (None, w\<lparr> queue := q', trace := trace w @ [ZPopMin jid] \<rparr>)"
  using assms
  by (auto simp add: get_next_job_def get_job_def emit_def Let_def)

lemma sleeps_append: "sleeps (xs @ ys) = sleeps xs @ sleeps ys"
  by (induction xs rule: sleeps.induct) auto

lemma writes_append: "writes (xs @ ys) = writes xs @ writes ys"
  by (induction xs rule: writes.induct) auto

section \<open>The backoff table\<close>

text \<open>
  C7. The table \<^verbatim>\<open>RETRY_DELAYS\<close> is \<open>[1, 4, 9]\<close>, as long as the retry bound, and
  read with the 1-based attempt number it does not decrease: the entry for attempt
  \<open>k\<close> is at most the entry for attempt \<open>k + 1\<close> whenever \<open>1 \<le> k < MAX_RETRIES\<close>.
  When a failure is handled that brings \<^verbatim>\<open>retry_count\<close> to such a \<open>k\<close> (so that a
  \<open>k\<close>-th retry follows), the one sleep of that step lasts exactly the \<open>k\<close>-th entry,
  \<^verbatim>\<open>RETRY_DELAYS[k - 1]\<close>.
\<close>

theorem backoff_table_monotone:
  "int (length RETRY_DELAYS) = MAX_RETRIES
   \<and> RETRY_DELAYS = [1, 4, 9]
   \<and> (\<forall>k. 1 \<le> k \<and> k < MAX_RETRIES \<longrightarrow>
          (\<exists>a b. backoff k = Inr a \<and> backoff (k + 1) = Inr b \<and> a \<le> b))
   \<and> (\<forall>e j0 msg w k. retry_count j0 + 1 = k \<and> 1 \<le> k \<and> k < MAX_RETRIES \<longrightarrow>
          backoff k = Inr (RETRY_DELAYS ! nat (k - 1)) \<and>
          sleeps (trace (snd (snd (handle_job_failure e j0 msg w)))) =
            sleeps (trace w) @ [RETRY_DELAYS ! nat (k - 1)])"
proof (intro conjI allI impI)
  show "int (length RETRY_DELAYS) = MAX_RETRIES"
    by (simp add: RETRY_DELAYS_def MAX_RETRIES_def)
  show "RETRY_DELAYS = [1, 4, 9]"
    by (simp add: RETRY_DELAYS_def)
next
  fix k :: int
  assume k: "1 \<le> k \<and> k < MAX_RETRIES"
  then have "k = 1 \<or> k = 2"
    by (auto simp: MAX_RETRIES_def)
  then show "\<exists>a b. backoff k = Inr a \<and> backoff (k + 1) = Inr b \<and> a \<le> b"
    by (auto simp: backoff_def py_index_def RETRY_DELAYS_def)
next
  fix e :: env and j0 :: job and msg :: string and w :: world and k :: int
  assume k: "retry_count j0 + 1 = k \<and> 1 \<le> k \<and> k < MAX_RETRIES"
  then show "backoff k = Inr (RETRY_DELAYS ! nat (k - 1))"
    by (simp add: backoff_in_range MAX_RETRIES_def)
  from k have b: "backoff (retry_count j0 + 1) = Inr (RETRY_DELAYS ! nat (k - 1))"
    by (simp add: backoff_in_range MAX_RETRIES_def)
  from k have r: "retry_count j0 + 1 < MAX_RETRIES"
    by simp
  show "sleeps (trace (snd (snd (handle_job_failure e j0 msg w)))) =
          sleeps (trace w) @ [RETRY_DELAYS ! nat (k - 1)]"
    using b r
    by (simp add: handle_job_failure_def should_retry_def mark_failed_def
        update_job_status_def save_job_def emit_def Let_def sleeps_append
        split: sum.splits)
qed

theorem backoff_table_monotone_witness:
  "(1::int) \<le> 2 \<and> 2 < MAX_RETRIES
   \<and> backoff 2 = Inr 4 \<and> backoff 3 = Inr 9
   \<and> retry_count (job_a\<lparr> retry_count := 1 \<rparr>) + 1 = 2
   \<and> sleeps (trace (snd (snd (handle_job_failure env_fail (job_a\<lparr> retry_count := 1 \<rparr>)
                                   ''Job execution failed'' init_world)))) = [4]"
proof -
  have h: "retry_count (job_a\<lparr> retry_count := 1 \<rparr>) + 1 = 2 \<and> (1::int) \<le> 2 \<and> 2 < MAX_RETRIES"
    by (simp add: MAX_RETRIES_def)
  have t: "\<forall>e j0 msg w k. retry_count j0 + 1 = k \<and> 1 \<le> k \<and> k < MAX_RETRIES \<longrightarrow>
          backoff k = Inr (RETRY_DELAYS ! nat (k - 1)) \<and>
          sleeps (trace (snd (snd (handle_job_failure e j0 msg w)))) =
            sleeps (trace w) @ [RETRY_DELAYS ! nat (k - 1)]"
    using backoff_table_monotone by blast
  have "backoff 2 = Inr (RETRY_DELAYS ! nat (2 - 1)) \<and>
        sleeps (trace (snd (snd (handle_job_failure env_fail (job_a\<lparr> retry_count := 1 \<rparr>)
                                   ''Job execution failed'' init_world)))) =
          sleeps (trace init_world) @ [RETRY_DELAYS ! nat (2 - 1)]"
    using t h by blast
  moreover have "backoff 3 = Inr 9"
    by (simp add: backoff_def py_index_def RETRY_DELAYS_def)
  ultimately show ?thesis
    using h by (simp add: RETRY_DELAYS_def init_world_def)
qed

section \<open>Dispatch of a stale entry\<close>

text \<open>
  C3, as the code has it. When the entry that \<^verbatim>\<open>get_next_job\<close> pops refers to a
  record whose status is not \<^verbatim>\<open>pending\<close>, the entry is discarded and that call
  returns \<^verbatim>\<open>None\<close> after this single pop: every other entry stays in the sorted
  set and the table of jobs is not touched. The next entry is popped by the next
  call, which the loop of \<^verbatim>\<open>start\<close> makes after its two seconds of sleep.
\<close>

theorem get_next_job_stale_single_pop:
  assumes "zpopmin (queue w) = Some ((jid, sc), q')"
    and "db w jid = Some j"
    and "status j \<noteq> ''pending''"
  shows "get_next_job e w = (None, w\<lparr> queue := q', trace := trace w @ [ZPopMin jid] \<rparr>)
         \<and> q' = AList.delete jid (queue w)
         \<and> worker_iteration e w =
             (None, w\<lparr> queue := q', trace := trace w @ [ZPopMin jid, Sleep 2] \<rparr>)"
proof -
  have g: "get_next_job e w = (None, w\<lparr> queue := q', trace := trace w @ [ZPopMin jid] \<rparr>)"
    using assms by (simp add: get_next_job_def get_job_def emit_def Let_def)
  have q: "q' = AList.delete jid (queue w)"
    using assms(1) by (auto simp: zpopmin_def split: option.splits)
  have "worker_iteration e w =
          (None, w\<lparr> queue := q', trace := trace w @ [ZPopMin jid, Sleep 2] \<rparr>)"
    by (simp add: worker_iteration_def g emit_def)
  with g q show ?thesis by simp
qed

lemma zpopmin_stale_world: "zpopmin (queue stale_world) = Some ((''a'', 1), [(''b'', 2)])"
  by (simp add: stale_world_def zpopmin_def entry_le_def)

theorem get_next_job_stale_single_pop_witness:
  "zpopmin (queue stale_world) = Some ((''a'', 1), [(''b'', 2)])
   \<and> db stale_world ''a'' = Some (job_a\<lparr> status := ''completed'' \<rparr>)
   \<and> status (job_a\<lparr> status := ''completed'' \<rparr>) \<noteq> ''pending''
   \<and> get_next_job env_good stale_world =
       (None, stale_world\<lparr> queue := [(''b'', 2)], trace := trace stale_world @ [ZPopMin ''a''] \<rparr>)"
proof -
  have d: "db stale_world ''a'' = Some (job_a\<lparr> status := ''completed'' \<rparr>)"
    by (simp add: stale_world_def)
  have s: "status (job_a\<lparr> status := ''completed'' \<rparr>) \<noteq> ''pending''"
    by simp
  show ?thesis
    using get_next_job_stale_single_pop [OF zpopmin_stale_world d s, of env_good]
      zpopmin_stale_world d s
    by simp
qed

text \<open>
  The dispatcher does not pop again inside the call: on \<open>stale_world\<close> the call
  returns \<^verbatim>\<open>None\<close> although the pending job \<^verbatim>\<open>b\<close> is still queued.
\<close>

theorem get_next_job_no_internal_retry:
  "fst (get_next_job env_good stale_world) = None
   \<and> queue (snd (get_next_job env_good stale_world)) = [(''b'', 2)]
   \<and> map_option status (db (snd (get_next_job env_good stale_world)) ''b'') = Some ''pending''"
proof -
  have "db stale_world ''a'' = None \<or>
        (\<exists>j. db stale_world ''a'' = Some j \<and> status j \<noteq> ''pending'')"
    by (simp add: stale_world_def)
  from get_next_job_not_pending [OF zpopmin_stale_world this, of env_good]
  show ?thesis
    by (simp add: stale_world_def job_b_def new_job_def)
qed

section \<open>Priority order of dispatch\<close>

lemma set_delete: "set (AList.delete k q) = {x \<in> set q. fst x \<noteq> k}"
  by (induction q) auto

lemma zpopmin_least_entry:
  assumes "m \<in> set q" and "\<And>x. x \<in> set q \<Longrightarrow> x \<noteq> m \<Longrightarrow> snd m < snd x"
  shows "zpopmin q = Some (m, AList.delete (fst m) q)"
proof -
  obtain m' where z: "zmin q = Some m'"
    using assms(1) zmin_None [of q] by (cases "zmin q") auto
  have "m' \<in> set q" using z by (rule zmin_mem)
  moreover have "snd m' \<le> snd m" using z assms(1) by (rule zmin_least)
  ultimately have "m' = m" using assms(2) [of m'] by force
  with z show ?thesis by (cases m) (simp add: zpopmin_def)
qed

lemma priority_score_high_low:
  "priority_score ''high'' = Inr 1" "priority_score ''low'' = Inr 2"
  by (simp_all add: priority_score_def PRIORITY_SCORES_def)

lemma low_then_high_stores:
  "db low_then_high ''a'' = Some (job_a\<lparr> created_at := now env_good \<rparr>)"
  "db low_then_high ''b'' = Some (job_b\<lparr> created_at := now env_good \<rparr>)"
  "queue low_then_high = [(''b'', 2), (''a'', 1)]"
  by (simp_all add: low_then_high_def submit_job_def body_high_def body_low_def
      required_fields_def valid_job_types_def save_job_def emit_def priority_score_def
      PRIORITY_SCORES_def new_job_def job_a_def job_b_def env_good_def init_world_def
      zadd_def Let_def)

text \<open>
  C5. The table gives \<^verbatim>\<open>high\<close> a strictly smaller score than \<^verbatim>\<open>low\<close>, and
  \<^verbatim>\<open>zpopmin\<close> removes an entry whose score no other entry undercuts. Hence, when
  the sorted set holds exactly the entries of a pending job \<open>A\<close> of priority high and
  a pending job \<open>B\<close> of priority low, in whatever order they were inserted, the first
  call of \<^verbatim>\<open>get_next_job\<close> returns \<open>A\<close> and the second returns \<open>B\<close>.
\<close>

theorem high_dispatched_before_low:
  assumes "db w a = Some A" and "db w b = Some B" and "a \<noteq> b"
    and "job_id A = a" and "job_id B = b"
    and "status A = ''pending''" and "status B = ''pending''"
    and "priority A = ''high''" and "priority B = ''low''"
    and "priority_score (priority A) = Inr h" and "priority_score (priority B) = Inr l"
    and "set (queue w) = {(a, h), (b, l)}"
  shows "h < l
     \<and> (\<forall>q k s q' x. zpopmin q = Some ((k, s), q') \<and> x \<in> set q \<longrightarrow> s \<le> snd x)
     \<and> fst (get_next_job e w) = Some (mark_picked (now e) A)
     \<and> fst (get_next_job e' (snd (get_next_job e w))) = Some (mark_picked (now e') B)"
proof -
  have hl: "h = 1" "l = 2"
    using assms(8-11) by (simp_all add: priority_score_high_low)
  have p1: "zpopmin (queue w) = Some ((a, h), AList.delete a (queue w))"
    using zpopmin_least_entry [of "(a, h)" "queue w"] assms(12) hl by auto
  note g1 = get_next_job_pending [OF p1 assms(1) assms(6), of e]
  define w1 where "w1 = snd (get_next_job e w)"
  have q1: "queue w1 = AList.delete a (queue w)"
    by (simp add: w1_def g1)
  have "set (queue w1) = {(b, l)}"
    using assms(3,12) by (auto simp: q1 set_delete)
  then have p2: "zpopmin (queue w1) = Some ((b, l), AList.delete b (queue w1))"
    using zpopmin_least_entry [of "(b, l)" "queue w1"] by auto
  have d1: "db w1 b = Some B"
    using assms(2,3,4) by (simp add: w1_def g1)
  note g2 = get_next_job_pending [OF p2 d1 assms(7), of e']
  have least: "\<forall>q k s q' x. zpopmin q = Some ((k, s), q') \<and> x \<in> set q \<longrightarrow> s \<le> snd x"
    using zpopmin_Some by blast
  show ?thesis
    using hl least g1 g2 by (simp add: w1_def)
qed

theorem high_dispatched_before_low_witness:
  "db low_then_high ''a'' = Some (job_a\<lparr> created_at := now env_good \<rparr>)
   \<and> db low_then_high ''b'' = Some (job_b\<lparr> created_at := now env_good \<rparr>)
   \<and> queue low_then_high = [(''b'', 2), (''a'', 1)]
   \<and> priority_score ''high'' = Inr 1 \<and> priority_score ''low'' = Inr 2
   \<and> map_option job_id (fst (get_next_job env_good low_then_high)) = Some ''a''
   \<and> map_option job_id
        (fst (get_next_job env_fail (snd (get_next_job env_good low_then_high)))) = Some ''b''"
proof -
  let ?A = "job_a\<lparr> created_at := now env_good \<rparr>"
  let ?B = "job_b\<lparr> created_at := now env_good \<rparr>"
  have ids: "job_id ?A = ''a''" "job_id ?B = ''b''"
    and st: "status ?A = ''pending''" "status ?B = ''pending''"
    and pr: "priority ?A = ''high''" "priority ?B = ''low''"
    by (simp_all add: job_a_def job_b_def new_job_def)
  have sc: "priority_score (priority ?A) = Inr 1" "priority_score (priority ?B) = Inr 2"
    by (simp_all add: pr priority_score_high_low)
  have q: "set (queue low_then_high) = {(''a'', 1), (''b'', 2)}"
    by (auto simp: low_then_high_stores)
  have ne: "''a'' \<noteq> ''b''" by simp
  from high_dispatched_before_low
    [OF low_then_high_stores(1) low_then_high_stores(2) ne ids st pr sc q,
      of env_good env_fail]
  show ?thesis
    using low_then_high_stores priority_score_high_low
    by (simp add: mark_picked_def job_a_def job_b_def new_job_def)
qed

section \<open>Submission\<close>

lemma new_job_sel:
  "job_id (new_job jt pr pl u t) = u" "priority (new_job jt pr pl u t) = pr"
  "status (new_job jt pr pl u t) = ''pending''" "retry_count (new_job jt pr pl u t) = 0"
  "job_type (new_job jt pr pl u t) = jt" "payload (new_job jt pr pl u t) = pl"
  by (simp_all add: new_job_def)

lemma submit_job_accept:
  assumes "truthy data" and "missing_field data required_fields = Inr None"
    and "py_getitem data ''priority'' = Inr (JStr pr)" and "pr = ''high'' \<or> pr = ''low''"
    and "py_getitem data ''job_type'' = Inr (JStr jt)" and "jt \<in> set valid_job_types"
    and "py_getitem data ''payload'' = Inr pl" and "priority_score pr = Inr sc"
  shows "submit_job e u data w =
     (if db_ok e
      then ((201, JObj [(''message'', JStr ''Job submitted successfully''),
                        (''job_id'', JStr u), (''status'', JStr ''pending''),
                        (''priority'', JStr pr), (''job_type'', JStr jt)]),
            w\<lparr> db := (db w)(u \<mapsto> new_job jt pr pl u (now e)),
               queue := zadd u sc (queue w),
               trace := trace w @ [DbWrite (new_job jt pr pl u (now e)) True, ZAdd u sc] \<rparr>)
      else ((500, error_body ''Failed to save job to database''),
            w\<lparr> trace := trace w @ [DbWrite (new_job jt pr pl u (now e)) False] \<rparr>))"
  using assms
  by (auto simp add: submit_job_def save_job_def emit_def Let_def new_job_sel)

lemma submit_job_reject:
  assumes "\<not> (truthy data \<and> missing_field data required_fields = Inr None \<and>
            (\<exists>pr jt pl. py_getitem data ''priority'' = Inr (JStr pr) \<and>
               (pr = ''high'' \<or> pr = ''low'') \<and>
               py_getitem data ''job_type'' = Inr (JStr jt) \<and> jt \<in> set valid_job_types \<and>
               py_getitem data ''payload'' = Inr pl))"
  shows "snd (submit_job e u data w) = w \<and> fst (fst (submit_job e u data w)) \<in> {400, 500}"
  using assms
  by (auto simp add: submit_job_def internal_error_def Let_def split: sum.splits option.splits)

lemma submit_job_cases:
  obtains
    (rejected) "snd (submit_job e u data w) = w"
      and "fst (fst (submit_job e u data w)) \<in> {400, 500}"
  | (unsaved) j where "\<not> db_ok e" and "fst (fst (submit_job e u data w)) = 500"
      and "snd (submit_job e u data w) = w\<lparr> trace := trace w @ [DbWrite j False] \<rparr>"
  | (created) jt pr pl sc where "db_ok e" and "fst (fst (submit_job e u data w)) = 201"
      and "pr = ''high'' \<or> pr = ''low''" and "priority_score pr = Inr sc"
      and "snd (submit_job e u data w) =
             w\<lparr> db := (db w)(u \<mapsto> new_job jt pr pl u (now e)),
                queue := zadd u sc (queue w),
                trace := trace w @ [DbWrite (new_job jt pr pl u (now e)) True, ZAdd u sc] \<rparr>"
proof (cases "truthy data \<and> missing_field data required_fields = Inr None \<and>
            (\<exists>pr jt pl. py_getitem data ''priority'' = Inr (JStr pr) \<and>
               (pr = ''high'' \<or> pr = ''low'') \<and>
               py_getitem data ''job_type'' = Inr (JStr jt) \<and> jt \<in> set valid_job_types \<and>
               py_getitem data ''payload'' = Inr pl)")
  case False
  from submit_job_reject [OF this] show thesis
    using rejected by blast
next
  case True
  then obtain pr jt pl where a: "truthy data" "missing_field data required_fields = Inr None"
    "py_getitem data ''priority'' = Inr (JStr pr)" "pr = ''high'' \<or> pr = ''low''"
    "py_getitem data ''job_type'' = Inr (JStr jt)" "jt \<in> set valid_job_types"
    "py_getitem data ''payload'' = Inr pl"
    by blast
  obtain sc where sc: "priority_score pr = Inr sc"
    using a(4) priority_score_high_low by auto
  note s = submit_job_accept [OF a sc, of e u w]
  show thesis
  proof (cases "db_ok e")
    case True
    with s a(4) sc show thesis
      by (intro created [of pr sc jt pl]) simp_all
  next
    case False
    with s show thesis
      by (intro unsaved [of "new_job jt pr pl u (now e)"]) simp_all
  qed
qed








section \<open>Order of the steps in failure handling\<close>

lemma submit_job_201:
  assumes "fst (fst (submit_job e u data w)) = 201"
  obtains jt pr pl sc where "priority_score pr = Inr sc"
    and "snd (submit_job e u data w) =
           w\<lparr> db := (db w)(u \<mapsto> new_job jt pr pl u (now e)),
              queue := zadd u sc (queue w),
              trace := trace w @ [DbWrite (new_job jt pr pl u (now e)) True, ZAdd u sc] \<rparr>"
  using assms by (cases e u data w rule: submit_job_cases) auto

text \<open>
  C8, as the code has it. On the retry path of \<^verbatim>\<open>handle_job_failure\<close> the steps are,
  in this order: the status is set back to \<^verbatim>\<open>pending\<close> and the row is written, then
  the worker sleeps for the delay of the table, then the identifier is put back
  into the sorted set. The score of that \<^verbatim>\<open>zadd\<close> is the table's score of the job's
  priority, which the step does not change; it is the lookup that \<^verbatim>\<open>submit_job\<close>
  made when it first queued the job.
\<close>

theorem retry_path_order:
  assumes "should_retry (mark_failed msg (now e) j0) MAX_RETRIES"
    and "backoff (retry_count j0 + 1) = Inr d"
    and "priority_score (priority j0) = Inr sc"
  shows "(let r = handle_job_failure e j0 msg w; j' = fst (snd r); w' = snd (snd r)
          in fst r = None
           \<and> trace w' = trace w @ [DbWrite j' (db_ok e), Sleep d, ZAdd (job_id j0) sc]
           \<and> status j' = ''pending'' \<and> priority j' = priority j0
           \<and> retry_count j' = retry_count j0 + 1
           \<and> map_of (queue w') (job_id j0) = Some sc)
         \<and> (\<forall>e0 u data w0. fst (fst (submit_job e0 u data w0)) = 201 \<longrightarrow>
               (\<exists>j s. db (snd (submit_job e0 u data w0)) u = Some j
                     \<and> priority_score (priority j) = Inr s
                     \<and> map_of (queue (snd (submit_job e0 u data w0))) u = Some s))"
proof -
  have r: "retry_count j0 + 1 < MAX_RETRIES"
    using assms(1) by (simp add: should_retry_def mark_failed_def)
  have 1: "(let r = handle_job_failure e j0 msg w; j' = fst (snd r); w' = snd (snd r)
          in fst r = None
           \<and> trace w' = trace w @ [DbWrite j' (db_ok e), Sleep d, ZAdd (job_id j0) sc]
           \<and> status j' = ''pending'' \<and> priority j' = priority j0
           \<and> retry_count j' = retry_count j0 + 1
           \<and> map_of (queue w') (job_id j0) = Some sc)"
    by (simp add: handle_job_failure_retry [OF r assms(2) assms(3)] Let_def
        mark_failed_def zadd_def update_conv')
  have 2: "\<exists>j s. db (snd (submit_job e0 u data w0)) u = Some j
                     \<and> priority_score (priority j) = Inr s
                     \<and> map_of (queue (snd (submit_job e0 u data w0))) u = Some s"
    if "fst (fst (submit_job e0 u data w0)) = 201" for e0 u data w0
  proof -
    from that obtain jt pr pl s where "priority_score pr = Inr s"
      and "snd (submit_job e0 u data w0) =
           w0\<lparr> db := (db w0)(u \<mapsto> new_job jt pr pl u (now e0)),
              queue := zadd u s (queue w0),
              trace := trace w0 @ [DbWrite (new_job jt pr pl u (now e0)) True, ZAdd u s] \<rparr>"
      by (rule submit_job_201)
    then show ?thesis
      by (simp add: new_job_sel zadd_def update_conv')
  qed
  from 1 2 show ?thesis by blast
qed

theorem retry_path_order_witness:
  "should_retry (mark_failed ''Job execution failed'' (now env_fail) job_a) MAX_RETRIES
   \<and> backoff (retry_count job_a + 1) = Inr 1
   \<and> priority_score (priority job_a) = Inr 1
   \<and> fst (handle_job_failure env_fail job_a ''Job execution failed'' low_then_high) = None
   \<and> sleeps (trace (snd (snd (handle_job_failure env_fail job_a ''Job execution failed''
                                 low_then_high)))) = [1]
   \<and> map_of (queue (snd (snd (handle_job_failure env_fail job_a ''Job execution failed''
                                 low_then_high)))) ''a'' = Some 1"
proof -
  have s: "should_retry (mark_failed ''Job execution failed'' (now env_fail) job_a) MAX_RETRIES"
    by (simp add: should_retry_def mark_failed_def job_a_def new_job_def MAX_RETRIES_def)
  have b: "backoff (retry_count job_a + 1) = Inr 1"
    by (simp add: backoff_def py_index_def RETRY_DELAYS_def job_a_def new_job_def)
  have p: "priority_score (priority job_a) = Inr 1"
    by (simp add: job_a_def new_job_def priority_score_high_low)
  have t: "trace low_then_high =
             [DbWrite (job_b\<lparr> created_at := now env_good \<rparr>) True, ZAdd ''b'' 2,
              DbWrite (job_a\<lparr> created_at := now env_good \<rparr>) True, ZAdd ''a'' 1]"
    by (simp add: low_then_high_def submit_job_def body_high_def body_low_def
        required_fields_def valid_job_types_def save_job_def emit_def priority_score_def
        PRIORITY_SCORES_def new_job_def job_a_def job_b_def env_good_def init_world_def
        zadd_def Let_def)
  have i: "job_id job_a = ''a''"
    by (simp add: job_a_def new_job_def)
  from retry_path_order [OF s b p, of low_then_high] s b p
  show ?thesis
    by (simp add: Let_def t i sleeps_append)
qed

text \<open>
  The sleep is not the first step: the row with status \<^verbatim>\<open>pending\<close> is written before
  the worker sleeps.
\<close>

theorem retry_persists_before_sleep:
  "trace (snd (snd (handle_job_failure env_fail job_a ''Job execution failed'' init_world))) =
     [DbWrite (job_a\<lparr> status := ''pending'', retry_count := 1,
                      completed_at := Some ''2024-12-01T10:00:00'',
                      error_message := Some ''Job execution failed'' \<rparr>) True,
      Sleep 1,
      ZAdd ''a'' 1]"
  by (simp add: handle_job_failure_def should_retry_def mark_failed_def MAX_RETRIES_def
      backoff_def py_index_def RETRY_DELAYS_def priority_score_high_low
      update_job_status_def save_job_def emit_def Let_def
      job_a_def new_job_def env_fail_def init_world_def)

text \<open>
  C4, as the code has it. \<^verbatim>\<open>handle_job_failure\<close> takes the retry or give-up decision
  on the job object in memory, right after \<^verbatim>\<open>mark_failed\<close> and before any write. The
  incremented \<^verbatim>\<open>retry_count\<close>, the error message and the failure timestamp are then
  written exactly once, after the decision: on the retry path in a row whose status
  is already \<^verbatim>\<open>pending\<close>, on the give-up path in a row with status \<^verbatim>\<open>failed\<close> that is
  written after the line for \<^verbatim>\<open>failed_jobs.log\<close>.
\<close>

theorem failure_persisted_after_decision:
  assumes "0 \<le> retry_count j0"
  shows "(let j = mark_failed msg (now e) j0; w' = snd (snd (handle_job_failure e j0 msg w))
          in writes (trace w') =
               writes (trace w) @
                 [if should_retry j MAX_RETRIES then j\<lparr> status := ''pending'' \<rparr> else j]
           \<and> (\<not> should_retry j MAX_RETRIES \<longrightarrow>
                trace w' = trace w @ [FileAppend (job_id j0 @ '': '' @ msg @ [CHR 0x0A]),
                                      DbWrite j (db_ok e)])
           \<and> (should_retry j MAX_RETRIES \<longrightarrow>
                (\<exists>rest. trace w' =
                   trace w @ DbWrite (j\<lparr> status := ''pending'' \<rparr>) (db_ok e) # rest))
           \<and> retry_count j = retry_count j0 + 1 \<and> error_message j = Some msg
           \<and> completed_at j = Some (now e))"
proof (cases "retry_count j0 + 1 < MAX_RETRIES")
  case False
  then show ?thesis
    by (simp add: handle_job_failure_give_up Let_def should_retry_def mark_failed_def
        writes_append)
next
  case True
  with assms have b: "backoff (retry_count j0 + 1) = Inr (RETRY_DELAYS ! nat (retry_count j0))"
    by (simp add: backoff_in_range MAX_RETRIES_def)
  show ?thesis
    using True b
    by (simp add: handle_job_failure_def should_retry_def mark_failed_def
        update_job_status_def save_job_def emit_def Let_def writes_append
        split: sum.splits)
qed

theorem failure_persisted_after_decision_witness:
  "0 \<le> retry_count job_a
   \<and> map status (writes (trace (snd (snd (handle_job_failure env_fail job_a
                                   ''Job execution failed'' init_world))))) = [''pending'']
   \<and> map retry_count (writes (trace (snd (snd (handle_job_failure env_fail job_a
                                   ''Job execution failed'' init_world))))) = [1]"
proof -
  have h: "0 \<le> retry_count job_a"
    by (simp add: job_a_def new_job_def)
  from failure_persisted_after_decision [OF h, of "''Job execution failed''" env_fail init_world] h
  show ?thesis
    by (simp add: Let_def should_retry_def mark_failed_def MAX_RETRIES_def job_a_def
        new_job_def init_world_def)
qed

text \<open>
  On the give-up path the line for \<^verbatim>\<open>failed_jobs.log\<close>, which is written only once
  the decision is taken, precedes the one write of the failed row.
\<close>

theorem give_up_logged_before_persist:
  "trace (snd (snd (handle_job_failure env_fail (job_a\<lparr> retry_count := 2 \<rparr>)
                      ''Job execution failed'' init_world))) =
     [FileAppend (''a: Job execution failed'' @ [CHR 0x0A]),
      DbWrite (job_a\<lparr> status := ''failed'', retry_count := 3,
                      completed_at := Some ''2024-12-01T10:00:00'',
                      error_message := Some ''Job execution failed'' \<rparr>) True]"
  by (simp add: handle_job_failure_def should_retry_def mark_failed_def MAX_RETRIES_def
      update_job_status_def save_job_def emit_def Let_def
      job_a_def new_job_def env_fail_def init_world_def)

section \<open>Runs of the worker on a job that keeps failing\<close>


lemma process_job_success:
  assumes "execute_job e j"
  shows "process_job e j w =
     (None, mark_completed (now e) j,
      w\<lparr> db := (if db_ok e then (db w)(job_id j \<mapsto> mark_completed (now e) j) else db w),
         trace := trace w @ [DbWrite (mark_completed (now e) j) (db_ok e)] \<rparr>)"
  using assms
  by (simp add: process_job_def update_job_status_def save_job_def emit_def mark_completed_def
      Let_def)



lemma start_idle:
  "queue w = [] \<Longrightarrow>
     fst (start es w) = None \<and> db (snd (start es w)) = db w \<and> queue (snd (start es w)) = []"
proof (induction es arbitrary: w)
  case Nil
  then show ?case by simp
next
  case (Cons e es)
  have "worker_iteration e w = (None, emit (Sleep 2) w)"
    using Cons.prems by (simp add: worker_iteration_def get_next_job_empty)
  moreover have "queue (emit (Sleep 2) w) = []" "db (emit (Sleep 2) w) = db w"
    using Cons.prems by (simp_all add: emit_def)
  ultimately show ?case
    using Cons.IH [of "emit (Sleep 2) w"] by simp
qed







lemma one_job_world_stores:
  "db one_job_world ''a'' = Some (job_a\<lparr> created_at := now env_good \<rparr>)"
  "queue one_job_world = [(''a'', 1)]"
  by (simp_all add: one_job_world_def submit_job_def body_high_def
      required_fields_def valid_job_types_def save_job_def emit_def priority_score_def
      PRIORITY_SCORES_def new_job_def job_a_def env_good_def init_world_def
      zadd_def Let_def)

section \<open>Agreement between the table of jobs and the sorted set\<close>








section \<open>Runs of the worker until the queue is empty\<close>












section \<open>A job of an unregistered kind\<close>






section \<open>A write that sqlite refuses\<close>

lemma worker_iteration_db_down:
  "worker_iteration env_db_down one_job_world =
      (None, one_job_world\<lparr> queue := [],
               trace := trace one_job_world @
                 [ZPopMin ''a'',
                  DbWrite (mark_picked (now env_db_down) (job_a\<lparr> created_at := now env_good \<rparr>))
                    False,
                  DbWrite (mark_completed (now env_db_down)
                            (mark_picked (now env_db_down) (job_a\<lparr> created_at := now env_good \<rparr>)))
                    False] \<rparr>)"
proof -
  let ?j = "job_a\<lparr> created_at := now env_good \<rparr>"
  let ?p = "mark_picked (now env_db_down) ?j"
  have p: "zpopmin (queue one_job_world) = Some ((''a'', 1), [])"
    by (simp add: one_job_world_stores zpopmin_def)
  have st: "status ?j = ''pending''"
    by (simp add: job_a_def new_job_def)
  have down: "\<not> db_ok env_db_down"
    by (simp add: env_db_down_def)
  note g = get_next_job_pending [OF p one_job_world_stores(1) st, of env_db_down]
  have x: "execute_job env_db_down ?p"
    by (simp add: env_db_down_def execute_job_def send_email_def mark_picked_def
        job_a_def new_job_def)
  show ?thesis
    using down by (simp add: worker_iteration_def g process_job_success [OF x])
qed


text \<open>
  C9 asks that a failed write of the table is passed on to the caller of the
  iteration and that the job is not dropped. \<^verbatim>\<open>save_job\<close> reports the failure
  as \<^verbatim>\<open>False\<close>, and \<^verbatim>\<open>submit_job\<close> answers 500 on it, but the worker discards the
  result of every \<^verbatim>\<open>update_job_status\<close>. With one submitted job and sqlite refusing
  the writes of one iteration, the iteration ends without an exception, the entry
  is popped, both writes are lost, and the row stays \<^verbatim>\<open>pending\<close> with no entry in
  the sorted set: later iterations never dispatch the job again.
\<close>

theorem worker_drops_job_on_failed_write:
  "fst (worker_iteration env_db_down one_job_world) = None
   \<and> queue (snd (worker_iteration env_db_down one_job_world)) = []
   \<and> db (snd (worker_iteration env_db_down one_job_world)) ''a'' = db one_job_world ''a''
   \<and> map_option status (db one_job_world ''a'') = Some ''pending''
   \<and> map status (writes (drop 2 (trace (snd (worker_iteration env_db_down one_job_world)))))
       = [''processing'', ''completed'']
   \<and> fst (start [env_good, env_good] (snd (worker_iteration env_db_down one_job_world))) = None
   \<and> db (snd (start [env_good, env_good] (snd (worker_iteration env_db_down one_job_world))))
        ''a'' = db one_job_world ''a''
   \<and> fst (fst (submit_job env_db_down ''c'' body_high one_job_world)) = 500"
proof -
  let ?j = "job_a\<lparr> created_at := now env_good \<rparr>"
  note wi = worker_iteration_db_down
  have st: "status ?j = ''pending''"
    by (simp add: job_a_def new_job_def)
  have down: "\<not> db_ok env_db_down"
    by (simp add: env_db_down_def)
  have t: "length (trace one_job_world) = 2"
    by (simp add: one_job_world_def submit_job_def body_high_def
      required_fields_def valid_job_types_def save_job_def emit_def priority_score_def
      PRIORITY_SCORES_def new_job_def env_good_def init_world_def Let_def)
  have idle: "queue (snd (worker_iteration env_db_down one_job_world)) = []"
    by (simp add: wi)
  have s: "submit_job env_db_down ''c'' body_high one_job_world =
      ((500, error_body ''Failed to save job to database''),
       one_job_world\<lparr> trace := trace one_job_world @
          [DbWrite (new_job ''send_email'' ''high'' (JObj [(''to'', JStr ''user1@example.com'')])
                      ''c'' (now env_db_down)) False] \<rparr>)"
    using down
    by (simp add: submit_job_def body_high_def required_fields_def valid_job_types_def
        save_job_def emit_def Let_def)
  from start_idle [OF idle, of "[env_good, env_good]"] show ?thesis
    by (simp add: wi s t st one_job_world_stores mark_picked_def mark_completed_def)
qed

end
